theory Spec2Isabelle
  imports Complex_Main
begin

section \<open>Numeric values and tensors\<close>

text \<open>
  The library computes with float32 tensors. A tensor element is modelled as an exact
  real number or one of the three special values of IEEE arithmetic. Finite arithmetic is
  exact (no rounding, no overflow, no signed zero); the special values follow the IEEE
  rules that TensorFlow inherits: \<open>log 0 = -inf\<close>, the logarithm of a negative number is
  NaN, \<open>inf - inf\<close> and \<open>0 * inf\<close> are NaN, and NaN propagates.
\<close>

datatype fval = Fin real | PInf | NInf | NaN


fun fneg :: "fval \<Rightarrow> fval" where
  "fneg (Fin r) = Fin (- r)"
| "fneg PInf = NInf"
| "fneg NInf = PInf"
| "fneg NaN = NaN"

fun fadd :: "fval \<Rightarrow> fval \<Rightarrow> fval" where
  "fadd (Fin a) (Fin b) = Fin (a + b)"
| "fadd NaN y = NaN"
| "fadd x NaN = NaN"
| "fadd PInf NInf = NaN"
| "fadd NInf PInf = NaN"
| "fadd PInf y = PInf"
| "fadd x PInf = PInf"
| "fadd NInf y = NInf"
| "fadd x NInf = NInf"

definition fsub :: "fval \<Rightarrow> fval \<Rightarrow> fval" where
  "fsub x y = fadd x (fneg y)"

text \<open>The sign of a product or quotient with an infinite operand.\<close>

definition signed_inf :: "bool \<Rightarrow> fval" where
  "signed_inf positive = (if positive then PInf else NInf)"

fun fmul :: "fval \<Rightarrow> fval \<Rightarrow> fval" where
  "fmul (Fin a) (Fin b) = Fin (a * b)"
| "fmul NaN y = NaN"
| "fmul x NaN = NaN"
| "fmul (Fin a) PInf = (if a = 0 then NaN else signed_inf (0 < a))"
| "fmul (Fin a) NInf = (if a = 0 then NaN else signed_inf (a < 0))"
| "fmul PInf (Fin b) = (if b = 0 then NaN else signed_inf (0 < b))"
| "fmul NInf (Fin b) = (if b = 0 then NaN else signed_inf (b < 0))"
| "fmul PInf PInf = PInf"
| "fmul PInf NInf = NInf"
| "fmul NInf PInf = NInf"
| "fmul NInf NInf = PInf"

fun fdiv :: "fval \<Rightarrow> fval \<Rightarrow> fval" where
  "fdiv (Fin a) (Fin b) =
     (if b = 0 then (if a = 0 then NaN else signed_inf (0 < a)) else Fin (a / b))"
| "fdiv NaN y = NaN"
| "fdiv x NaN = NaN"
| "fdiv (Fin a) PInf = Fin 0"
| "fdiv (Fin a) NInf = Fin 0"
| "fdiv PInf (Fin b) = signed_inf (0 \<le> b)"
| "fdiv NInf (Fin b) = signed_inf (b < 0)"
| "fdiv PInf PInf = NaN"
| "fdiv PInf NInf = NaN"
| "fdiv NInf PInf = NaN"
| "fdiv NInf NInf = NaN"

fun flog :: "fval \<Rightarrow> fval" where
  "flog (Fin r) = (if 0 < r then Fin (ln r) else if r = 0 then NInf else NaN)"
| "flog PInf = PInf"
| "flog NInf = NaN"
| "flog NaN = NaN"

fun fexp :: "fval \<Rightarrow> fval" where
  "fexp (Fin r) = Fin (exp r)"
| "fexp PInf = PInf"
| "fexp NInf = Fin 0"
| "fexp NaN = NaN"



text \<open>
  \<open>tf.clip_by_value(t, lo, hi)\<close> is \<open>maximum(minimum(t, hi), lo)\<close>; the bounds are
  finite constants in every call of the library.
\<close>

fun clip1 :: "real \<Rightarrow> real \<Rightarrow> fval \<Rightarrow> fval" where
  "clip1 lo hi (Fin r) = Fin (max (min r hi) lo)"
| "clip1 lo hi PInf = Fin (max hi lo)"
| "clip1 lo hi NInf = Fin lo"
| "clip1 lo hi NaN = NaN"


text \<open>
  A tensor is the list of its elements (row-major); a matrix, where the row structure
  matters, is a list of rows. Elementwise operations of two tensors are modelled for
  operands of the same shape.
\<close>

type_synonym tensor = "fval list"
type_synonym matrix = "fval list list"

definition tbin :: "(fval \<Rightarrow> fval \<Rightarrow> fval) \<Rightarrow> tensor \<Rightarrow> tensor \<Rightarrow> tensor" where
  "tbin f a b = map2 f a b"

definition clip_by_value :: "tensor \<Rightarrow> real \<Rightarrow> real \<Rightarrow> tensor" where
  "clip_by_value t lo hi = map (clip1 lo hi) t"

fun reduce_sum :: "tensor \<Rightarrow> fval" where
  "reduce_sum [] = Fin 0"
| "reduce_sum (x # xs) = fadd x (reduce_sum xs)"

section \<open>Exceptions\<close>

text \<open>
  A Python exception is a value: a function that may raise returns \<open>error + 'a\<close>, and
  \<open>ebind\<close> runs the rest of a function body on the result of a call that did not raise.
\<close>

datatype error =
  NameError | NotImplementedError | TypeError | KeyError | ValueError | AttributeError
  | Exception string | ShapeMismatch

definition ebind :: "error + 'a \<Rightarrow> ('a \<Rightarrow> error + 'b) \<Rightarrow> error + 'b" where
  "ebind r f = (case r of Inl e \<Rightarrow> Inl e | Inr v \<Rightarrow> f v)"

section \<open>Density library (util/dists.py)\<close>

text \<open>
  \<^verbatim>\<open>
  def bernoulli_kl(p, q, clip_finite=True):
      if clip_finite:
          lp = tf.log(tf.clip_by_value(p, 1e-37, 1.0)); lp1 = tf.log(tf.clip_by_value(1.0-p, 1e-37, 1.0))
          lq = tf.log(tf.clip_by_value(q, 1e-37, 1.0)); lq1 = tf.log(tf.clip_by_value(1.0-q, 1e-37, 1.0))
      else:
          lp = tf.log(p); lp1 = tf.log(1.0-p)
          lq = tf.log(p); lq1 = tf.log(1.0-p)
      kl = p * (lp - lq) + (1.0-p) * (lp1 - lq1)
      return kl
  \<close>
\<close>

definition one_minus :: "tensor \<Rightarrow> tensor" where
  "one_minus p = map (fsub (Fin 1)) p"

definition bernoulli_kl :: "tensor \<Rightarrow> tensor \<Rightarrow> bool \<Rightarrow> tensor" where
  "bernoulli_kl p q clip_finite =
     (let lp  = (if clip_finite then map flog (clip_by_value p (1 / 10 ^ 37) 1)
                 else map flog p);
          lp1 = (if clip_finite then map flog (clip_by_value (one_minus p) (1 / 10 ^ 37) 1)
                 else map flog (one_minus p));
          lq  = (if clip_finite then map flog (clip_by_value q (1 / 10 ^ 37) 1)
                 else map flog p);
          lq1 = (if clip_finite then map flog (clip_by_value (one_minus q) (1 / 10 ^ 37) 1)
                 else map flog (one_minus p))
      in tbin fadd (tbin fmul p (tbin fsub lp lq))
                   (tbin fmul (one_minus p) (tbin fsub lp1 lq1)))"



section \<open>Distribution catalog (elementary.py)\<close>


text \<open>
  \<^verbatim>\<open>
  class Laplace:
      def _entropy(self, loc, scale):
          return 1 + tf.reduce_sum(tf.log(2*scale))
  \<close>
\<close>

definition Laplace_entropy :: "tensor \<Rightarrow> tensor \<Rightarrow> fval" where
  "Laplace_entropy loc scale = fadd (Fin 1) (reduce_sum (map flog (map (fmul (Fin 2)) scale)))"

text \<open>The differential entropy of one Laplace variable of scale \<open>s\<close>.\<close>

definition laplace_entropy_elem :: "real \<Rightarrow> real" where
  "laplace_entropy_elem s = 1 + ln (2 * s)"








section \<open>Transform algebra (transforms.py)\<close>

text \<open>
  A transform method called with \<open>return_log_jac=True\<close> returns the pair of the
  transformed tensor and the log-Jacobian, and the transformed tensor alone otherwise.
\<close>

datatype 'a ret = Value 'a | WithLogJac 'a fval

text \<open>
  The two ways a caller takes such a result: \<open>x = f(...)\<close> where a tensor is meant, and
  the unpacking \<open>x, lj = f(...)\<close>. A method that hands back the other form breaks the
  Transform contract; unpacking a bare tensor raises TypeError, and a pair where a tensor
  is meant is reported the same way.
\<close>

definition expect_value :: "error + 'a ret \<Rightarrow> error + 'a" where
  "expect_value r =
     (case r of
        Inl e \<Rightarrow> Inl e
      | Inr (Value y) \<Rightarrow> Inr y
      | Inr (WithLogJac y lj) \<Rightarrow> Inl TypeError)"

definition expect_pair :: "error + 'a ret \<Rightarrow> error + 'a \<times> fval" where
  "expect_pair r =
     (case r of
        Inl e \<Rightarrow> Inl e
      | Inr (Value y) \<Rightarrow> Inl TypeError
      | Inr (WithLogJac y lj) \<Rightarrow> Inr (y, lj))"




text \<open>
  Transform classes hold no state and are never instantiated: a class is the record of
  its class methods. Shapes are tuples of integers.
  \<^verbatim>\<open>
  class Transform(object):
      def transform(cls, x, return_log_jac=False, **kwargs): raise NotImplementedError
      def inverse(cls, transformed, return_log_jac=False, **kwargs): raise NotImplementedError
      def output_shape(cls, input_shape): return input_shape
      def input_shape(cls, output_shape): return output_shape
      def is_structural(cls): return False
  \<close>
\<close>

type_synonym shape = "int list"

record 'a Transform =
  transform :: "'a \<Rightarrow> bool \<Rightarrow> error + 'a ret"
  inverse_fn :: "'a \<Rightarrow> bool \<Rightarrow> error + 'a ret"
  output_shape :: "shape \<Rightarrow> error + shape"
  input_shape :: "shape \<Rightarrow> error + shape"
  is_structural :: bool

definition Transform_base :: "'a Transform" where
  "Transform_base =
     \<lparr> transform = (\<lambda>x return_log_jac. Inl NotImplementedError),
       inverse_fn = (\<lambda>transformed return_log_jac. Inl NotImplementedError),
       output_shape = (\<lambda>s. Inr s),
       input_shape = (\<lambda>s. Inr s),
       is_structural = False \<rparr>"

subsection \<open>Logit\<close>

text \<open>
  \<^verbatim>\<open>
  class Logit(Transform):
      def transform(cls, x, return_log_jac=False, clip_finite=True, **kwargs):
          if clip_finite:
              x = tf.clip_by_value(x, -88, 88, name="clipped_logit_input")
          transformed = 1.0 / (1 + tf.exp(-x))
          if return_log_jac:
              jacobian = transformed * (1-transformed)
              if clip_finite:
                  jacobian = tf.clip_by_value(jacobian, 1e-45, 1e38, name="clipped_jacobian")
              log_jacobian = tf.reduce_sum(tf.log(jacobian))
              return transformed, log_jacobian
          else:
              return transformed

      def inverse(cls, transformed, return_log_jac=False, **kwargs):
          x = tf.log(1./transformed - 1.0)
          if return_log_jac:
              jacobian = transformed * (1-transformed)
              if clip_finite:
                  jacobian = tf.clip_by_value(jacobian, 1e-45, 1e38, name="clipped_jacobian")
              log_jacobian = -tf.reduce_sum(tf.log(jacobian))
              return x, log_jacobian
          else:
              return x
  \<close>
  In \<open>inverse\<close> the name \<open>clip_finite\<close> is read and never assigned, and it is not a
  parameter (a keyword argument of that name lands in the dictionary \<open>kwargs\<close>, which
  binds no name). Python therefore looks it up among the names bound at the top level of
  the module, then among the builtins, which have no such name, and raises NameError when
  it is not found. Every object bound at the top level of the module is a module, a
  function or a class, hence true as a condition.
\<close>

definition transforms_module_globals :: "string list" where
  "transforms_module_globals =
     [''print_function'', ''np'', ''tf'', ''shapes_equal'', ''shape_is_scalar'',
      ''extract_shape'', ''ConditionalDistribution'', ''DeterministicTransform'',
      ''UnaryTransform'', ''TransformedDistribution'', ''Transform'',
      ''SelfInverseTransform'', ''Logit'', ''RowNormalize'', ''UnitColumn'',
      ''RowNormalize1'', ''Exp'', ''Log1Exp'', ''Square'', ''Reciprocal'', ''Transpose'',
      ''invert_transform'', ''chain_transforms'', ''Sqrt'', ''Log'', ''Reciprocal_Sqrt'',
      ''Reciprocal_Square'', ''Exp_Reciprocal'', ''ColNormalize1'', ''ColNormalize'',
      ''Simplex1'', ''Simplex1Col'', ''Simplex_Raw'', ''Simplex_Raw_Col'', ''Simplex'',
      ''SimplexCol'']"

definition lookup_global :: "string \<Rightarrow> error + bool" where
  "lookup_global name =
     (if name \<in> set transforms_module_globals then Inr True else Inl NameError)"


definition Logit_inverse :: "tensor \<Rightarrow> bool \<Rightarrow> error + tensor ret" where
  "Logit_inverse transformed return_log_jac =
     (let x = map flog (map (\<lambda>t. fsub (fdiv (Fin 1) t) (Fin 1)) transformed)
      in if return_log_jac then
           (let jacobian = tbin fmul transformed (one_minus transformed)
            in ebind (lookup_global ''clip_finite'') (\<lambda>clip_finite.
                 let jacobian = (if clip_finite
                                 then clip_by_value jacobian (1 / 10 ^ 45) (10 ^ 38)
                                 else jacobian);
                     log_jacobian = fneg (reduce_sum (map flog jacobian))
                 in Inr (WithLogJac x log_jacobian)))
         else Inr (Value x))"

subsection \<open>Exp, Log1Exp, Square, Reciprocal\<close>

text \<open>
  \<^verbatim>\<open>
  class Exp(Transform):
      def transform(cls, x, return_log_jac=False, clip_finite=True, **kwargs):
          if clip_finite:
              x = tf.clip_by_value(x, -88, 88, name="clipped_exp_input")
          transformed = tf.exp(x)
          if return_log_jac:
              log_jacobian = tf.reduce_sum(x)
              return transformed, log_jacobian
          else:
              return transformed

      def inverse(cls, transformed, return_log_jac=False, clip_finite=True, **kwargs):
          if clip_finite:
              transformed = tf.clip_by_value(transformed, 1e-45, 1e38, name="clipped_log_input")
          x = tf.log(transformed)
          if return_log_jac:
              log_jacobian = -tf.reduce_sum(x)
              return x, log_jacobian
          else:
              return x
  \<close>
\<close>

definition Exp_transform :: "tensor \<Rightarrow> bool \<Rightarrow> bool \<Rightarrow> tensor ret" where
  "Exp_transform x return_log_jac clip_finite =
     (let x = (if clip_finite then clip_by_value x (- 88) 88 else x);
          transformed = map fexp x
      in if return_log_jac then
           (let log_jacobian = reduce_sum x in WithLogJac transformed log_jacobian)
         else Value transformed)"

definition Exp_inverse :: "tensor \<Rightarrow> bool \<Rightarrow> bool \<Rightarrow> tensor ret" where
  "Exp_inverse transformed return_log_jac clip_finite =
     (let transformed = (if clip_finite
                         then clip_by_value transformed (1 / 10 ^ 45) (10 ^ 38)
                         else transformed);
          x = map flog transformed
      in if return_log_jac then
           (let log_jacobian = fneg (reduce_sum x) in WithLogJac x log_jacobian)
         else Value x)"







subsection \<open>RowNormalize\<close>



subsection \<open>Composition\<close>

text \<open>
  \<^verbatim>\<open>
  def chain_transforms(*transforms):
      class Chain(Transform):
          def transform(cls, x, return_log_jac=False):
              log_jacs = []
              for transform in transforms:
                  if return_log_jac:
                      x, lj = transform.transform(x, return_log_jac=return_log_jac)
                      log_jacs.append(lj)
                  else:
                      x = transform.transform(x, return_log_jac=return_log_jac)
              if return_log_jac:
                  return x, tf.reduce_sum(tf.stack(log_jacs))
              else:
                  return x

          def inverse(cls, transformed, return_log_jac=False):
              log_jacs = []
              for transform in transforms[::-1]:
                  if return_log_jac:
                      transformed, lj = transform.inverse(transformed, return_log_jac=return_log_jac)
                      log_jacs.append(lj)
                  else:
                      transformed = transform.inverse(transformed, return_log_jac=return_log_jac)
              if return_log_jac:
                  return transformed, tf.reduce_sum(tf.pack(log_jacs))
              else:
                  return transformed

          def output_shape(cls, input_shape):
              for transform in transforms:
                  input_shape = transform.output_shape(input_shape)
              return input_shape

          def input_shape(cls, output_shape):
              for transform in transforms[::-1]:
                  output_shape = transform.input_shape(output_shape)
              return output_shape

          def is_structural(cls):
              is_structural = True
              for transform in transforms[::-1]:
                  is_structural *= transform.is_structural()
              return is_structural
      return Chain
  \<close>
  The loops carry the current tensor and the list \<open>log_jacs\<close>; an exception of a stage
  ends the loop. \<open>tf.pack\<close> is the older name of \<open>tf.stack\<close>. The product of truth values
  that \<open>is_structural\<close> accumulates (\<open>acc\<close> in the model) is 1 or 0, read here as a
  truth value.
\<close>

fun chain_loop ::
  "('a \<Rightarrow> bool \<Rightarrow> error + 'a ret) list \<Rightarrow> bool \<Rightarrow> 'a \<Rightarrow> fval list \<Rightarrow> error + 'a \<times> fval list" where
  "chain_loop [] return_log_jac x log_jacs = Inr (x, log_jacs)"
| "chain_loop (m # ms) return_log_jac x log_jacs =
     (if return_log_jac then
        ebind (expect_pair (m x return_log_jac))
          (\<lambda>(x, lj). chain_loop ms return_log_jac x (log_jacs @ [lj]))
      else
        ebind (expect_value (m x return_log_jac))
          (\<lambda>x. chain_loop ms return_log_jac x log_jacs))"

definition chain_result ::
  "bool \<Rightarrow> error + 'a \<times> fval list \<Rightarrow> error + 'a ret" where
  "chain_result return_log_jac r =
     ebind r (\<lambda>(x, log_jacs).
       if return_log_jac then Inr (WithLogJac x (reduce_sum log_jacs)) else Inr (Value x))"

fun shape_loop :: "(shape \<Rightarrow> error + shape) list \<Rightarrow> shape \<Rightarrow> error + shape" where
  "shape_loop [] s = Inr s"
| "shape_loop (f # fs) s = ebind (f s) (shape_loop fs)"

fun structural_loop :: "bool list \<Rightarrow> bool \<Rightarrow> bool" where
  "structural_loop [] acc = acc"
| "structural_loop (b # bs) acc = structural_loop bs (acc \<and> b)"

definition chain_transforms :: "'a Transform list \<Rightarrow> 'a Transform" where
  "chain_transforms transforms =
     \<lparr> transform = (\<lambda>x return_log_jac.
         chain_result return_log_jac
           (chain_loop (map transform transforms) return_log_jac x [])),
       inverse_fn = (\<lambda>transformed return_log_jac.
         chain_result return_log_jac
           (chain_loop (map inverse_fn (rev transforms)) return_log_jac transformed [])),
       output_shape = (\<lambda>s. shape_loop (map output_shape transforms) s),
       input_shape = (\<lambda>s. shape_loop (map input_shape (rev transforms)) s),
       is_structural = structural_loop (map is_structural (rev transforms)) True \<rparr>"

subsection \<open>Simplex\<close>

text \<open>
  \<^verbatim>\<open>
  Simplex_Raw = chain_transforms(Exp, RowNormalize)

  class Simplex(Transform):
      def transform(cls, x, **kwargs):
          xmax = tf.expand_dims(tf.reduce_max(x, axis=1), axis=1)
          return Simplex_Raw.transform(x-xmax, **kwargs)
  \<close>
  \<open>Simplex\<close> reduces along axis 1, so its input is a matrix. An elementwise method
  applied to a matrix acts on the elements in row-major order and keeps the shape; its
  log-Jacobian sums over all elements. Called through a chain, \<open>Exp\<close> and \<open>RowNormalize\<close>
  get no \<open>clip_finite\<close> argument, so the default \<open>True\<close> applies. The only keyword
  argument that \<open>Chain.transform\<close> accepts is \<open>return_log_jac\<close>.
\<close>

fun reshape_like :: "'b list list \<Rightarrow> 'a list \<Rightarrow> 'a list list" where
  "reshape_like [] ys = []"
| "reshape_like (r # rs) ys = take (length r) ys # reshape_like rs (drop (length r) ys)"

definition on_matrix :: "(tensor \<Rightarrow> tensor ret) \<Rightarrow> matrix \<Rightarrow> matrix ret" where
  "on_matrix f m =
     (case f (concat m) of
        Value y \<Rightarrow> Value (reshape_like m y)
      | WithLogJac y lj \<Rightarrow> WithLogJac (reshape_like m y) lj)"

definition Exp :: "matrix Transform" where
  "Exp = Transform_base
     \<lparr> transform := (\<lambda>x return_log_jac.
         Inr (on_matrix (\<lambda>t. Exp_transform t return_log_jac True) x)),
       inverse_fn := (\<lambda>transformed return_log_jac.
         Inr (on_matrix (\<lambda>t. Exp_inverse t return_log_jac True) transformed)) \<rparr>"






subsection \<open>Deterministic-transform nodes\<close>

text \<open>
  \<^verbatim>\<open>
  class DeterministicTransform(ConditionalDistribution):
      def attach_q(self, qdist):
          raise Exception("cannot attach an explicit Q distribution to a deterministic transform. attach to the parent instead!")
      def observe(self, observed_val):
          raise Exception("cannot explicitly observe a deterministic transformed value. ")

  class UnaryTransform(DeterministicTransform):
      def __init__(self, A, transform, **kwargs):
          self.transform=transform
          assert(isinstance(A, ConditionalDistribution))
          super(UnaryTransform, self).__init__(A=A, **kwargs)
      def observe(self, observed_val):
          transformed = self.transform.inverse(observed_val)
          self.inputs_random["A"].observe(transformed)
  \<close>
  A node is a stochastic node (an instance of a class that is not a deterministic
  transform), a deterministic transform of some parents that is not a
  \<open>UnaryTransform\<close>, or a \<open>UnaryTransform\<close> of one parent \<open>A\<close>. Every node carries the
  shape computed at its construction. A method call on a node resolves by the class of
  the node: \<open>UnaryTransform\<close> overrides \<open>observe\<close> and inherits \<open>attach_q\<close>. Mutation of a
  node is the return of the updated node.
\<close>

datatype 'a node =
    Stochastic shape "'a option" "'a node option"
  | Deterministic shape "'a node list"
  | Unary shape "'a node" "'a Transform"

fun node_shape :: "'a node \<Rightarrow> shape" where
  "node_shape (Stochastic s observed q) = s"
| "node_shape (Deterministic s parents) = s"
| "node_shape (Unary s A t) = s"

text \<open>
  Modelled from the spec: \<open>ConditionalDistribution.observe\<close> and
  \<open>ConditionalDistribution.attach_q\<close>, the methods of the base class that a stochastic
  node runs, are in \<open>conditional_dist.py\<close>, which is not among the sources.
  "\<open>observe(value)\<close>: fixes the node's realized value"; "\<open>attach_q(q_node)\<close>: overrides the
  default posterior; fails if \<open>q_node.shape != self.shape\<close>".
\<close>

definition base_observe :: "shape \<Rightarrow> 'a option \<Rightarrow> 'a node option \<Rightarrow> 'a \<Rightarrow> error + 'a node" where
  "base_observe s observed q observed_val = Inr (Stochastic s (Some observed_val) q)"

definition base_attach_q ::
  "shape \<Rightarrow> 'a option \<Rightarrow> 'a node option \<Rightarrow> 'a node \<Rightarrow> error + 'a node" where
  "base_attach_q s observed q qdist =
     (if node_shape qdist \<noteq> s then Inl ShapeMismatch
      else Inr (Stochastic s observed (Some qdist)))"

fun attach_q :: "'a node \<Rightarrow> 'a node \<Rightarrow> error + 'a node" where
  "attach_q (Stochastic s observed q) qdist = base_attach_q s observed q qdist"
| "attach_q (Deterministic s parents) qdist =
     Inl (Exception ''cannot attach an explicit Q distribution to a deterministic transform. attach to the parent instead!'')"
| "attach_q (Unary s A t) qdist =
     Inl (Exception ''cannot attach an explicit Q distribution to a deterministic transform. attach to the parent instead!'')"

fun observe :: "'a node \<Rightarrow> 'a \<Rightarrow> error + 'a node" where
  "observe (Stochastic s observed q) observed_val = base_observe s observed q observed_val"
| "observe (Deterministic s parents) observed_val =
     Inl (Exception ''cannot explicitly observe a deterministic transformed value. '')"
| "observe (Unary s A t) observed_val =
     ebind (expect_value (inverse_fn t observed_val False)) (\<lambda>transformed.
     ebind (observe A transformed) (\<lambda>A'. Inr (Unary s A' t)))"

section \<open>Arithmetic of tensor elements\<close>

text \<open>
  Addition of tensor elements is commutative and associative, so the order in which
  \<open>reduce_sum\<close> adds the elements does not matter.
\<close>

lemma fadd_commute: "fadd x y = fadd y x"
  by (cases x; cases y) simp_all

lemma fadd_assoc: "fadd (fadd x y) z = fadd x (fadd y z)"
  by (cases x; cases y; cases z) simp_all

lemma fsub_Fin: "fsub (Fin a) (Fin b) = Fin (a - b)"
  by (simp add: fsub_def)


lemma reduce_sum_replicate_Fin: "reduce_sum (replicate n (Fin v)) = Fin (real n * v)"
  by (induction n) (simp_all add: algebra_simps)

section \<open>Laplace entropy\<close>

text \<open>
  Claim C9. For a Laplace node whose scale tensor has \<open>n\<close> elements, all equal to
  \<open>s > 0\<close>, \<open>_entropy\<close> returns \<open>1 + n * log (2 s)\<close>: the constant 1 is added once for
  the whole tensor. The sum of the \<open>n\<close> per-element entropies \<open>1 + log (2 s)\<close> exceeds the
  returned value by exactly \<open>n - 1\<close>.
\<close>

theorem Laplace_entropy_constant_once:
  assumes "0 < s"
  shows "Laplace_entropy loc (replicate n (Fin s)) = Fin (1 + real n * ln (2 * s)) \<and>
         real n * laplace_entropy_elem s - (1 + real n * ln (2 * s)) = real n - 1"
proof -
  have "map flog (map (fmul (Fin 2)) (replicate n (Fin s))) = replicate n (Fin (ln (2 * s)))"
    using assms by simp
  then have "Laplace_entropy loc (replicate n (Fin s)) = Fin (1 + real n * ln (2 * s))"
    unfolding Laplace_entropy_def by (simp only: reduce_sum_replicate_Fin fadd.simps)
  then show ?thesis
    by (simp add: laplace_entropy_elem_def algebra_simps)
qed

theorem Laplace_entropy_constant_once_witness:
  "(0::real) < 2 \<and> Laplace_entropy [] (replicate 3 (Fin 2)) = Fin (1 + 3 * ln 4) \<and>
   3 * laplace_entropy_elem 2 - (1 + 3 * ln 4) = 2"
  using Laplace_entropy_constant_once [of 2 "[]" 3] by simp

section \<open>Continuous uniform log-density\<close>






section \<open>Bernoulli KL divergence without clipping\<close>

text \<open>
  Claim C10, as stated, fails where an entry of \<open>p\<close> is 0 or 1: \<open>log 0 = -inf\<close> on both
  sides of the difference, \<open>-inf - (-inf)\<close> is NaN, and the entry of the result is NaN,
  not zero.
\<close>

theorem bernoulli_kl_unclipped_nan_counterexample:
  "bernoulli_kl [Fin 0] [Fin (1/2)] False = [NaN] \<and>
   bernoulli_kl [Fin 1] [Fin (1/2)] False = [NaN]"
  by (simp add: bernoulli_kl_def tbin_def one_minus_def fsub_def)

text \<open>
  Claim C10, amended. With \<open>clip_finite=False\<close> the result of \<open>bernoulli_kl\<close> does not
  depend on \<open>q\<close>, and for every \<open>p\<close> whose entries lie strictly between 0 and 1 it is zero
  in every entry.
\<close>

theorem bernoulli_kl_unclipped_zero:
  "bernoulli_kl p q False = bernoulli_kl p q' False \<and>
   (list_all (\<lambda>r. 0 < r \<and> r < 1) rs \<longrightarrow>
      bernoulli_kl (map Fin rs) q False = replicate (length rs) (Fin 0))"
proof -
  have "list_all (\<lambda>r. 0 < r \<and> r < 1) rs \<Longrightarrow>
      bernoulli_kl (map Fin rs) q False = replicate (length rs) (Fin 0)"
    by (induction rs) (simp_all add: bernoulli_kl_def tbin_def one_minus_def fsub_Fin)
  then show ?thesis by (simp add: bernoulli_kl_def)
qed

theorem bernoulli_kl_unclipped_zero_witness:
  "list_all (\<lambda>r. 0 < r \<and> r < 1) [1/4, 1/2 :: real] \<and>
   bernoulli_kl [Fin (1/4), Fin (1/2)] [Fin (1/3), Fin (9/10)] False = [Fin 0, Fin 0]"
  using bernoulli_kl_unclipped_zero
          [of "[Fin (1/4), Fin (1/2)]" "[Fin (1/3), Fin (9/10)]" "[Fin (1/3), Fin (9/10)]"
              "[1/4, 1/2]"]
  by simp

section \<open>Logit.inverse\<close>

text \<open>
  Claim C8. For every input \<open>y\<close>, \<open>Logit.inverse(y, return_log_jac=True)\<close> raises
  NameError: the name \<open>clip_finite\<close> that the log-Jacobian branch reads is bound nowhere.
  Without \<open>return_log_jac\<close> the method returns \<open>log (1 / y - 1)\<close>.
\<close>

theorem Logit_inverse_log_jac_NameError:
  "Logit_inverse y True = Inl NameError \<and>
   Logit_inverse y False = Inr (Value (map (\<lambda>t. flog (fsub (fdiv (Fin 1) t) (Fin 1))) y))"
  by (simp add: Logit_inverse_def lookup_global_def transforms_module_globals_def ebind_def)

section \<open>Observing and attaching posteriors on deterministic transforms\<close>

text \<open>
  Claim C5. \<open>attach_q\<close> raises on every deterministic-transform node, a
  \<open>UnaryTransform\<close> included; \<open>observe\<close> raises on a deterministic transform that is not
  a \<open>UnaryTransform\<close>; and on a \<open>UnaryTransform\<close> whose transform inverts the observed value
  \<open>v\<close> to \<open>w\<close>, \<open>observe\<close> hands \<open>w\<close> to the parent's \<open>observe\<close>, which succeeds on a
  stochastic parent and records \<open>w\<close> there.
\<close>

theorem deterministic_nodes_reject:
  "(\<exists>msg. attach_q (Deterministic s parents) qdist = Inl (Exception msg)) \<and>
   (\<exists>msg. attach_q (Unary s A t) qdist = Inl (Exception msg)) \<and>
   (\<exists>msg. observe (Deterministic s parents) v = Inl (Exception msg)) \<and>
   (inverse_fn t v False = Inr (Value w) \<longrightarrow>
      observe (Unary s A t) v = ebind (observe A w) (\<lambda>A'. Inr (Unary s A' t)) \<and>
      observe (Unary s (Stochastic sA observed q) t) v
        = Inr (Unary s (Stochastic sA (Some w) q) t))"
  by (simp add: ebind_def expect_value_def base_observe_def)

theorem deterministic_nodes_reject_witness:
  "inverse_fn Exp [[Fin 1]] False = Inr (Value [[Fin 0]]) \<and>
   observe (Unary [1, 1] (Stochastic [1, 1] None None) Exp) [[Fin 1]]
     = Inr (Unary [1, 1] (Stochastic [1, 1] (Some [[Fin 0]]) None) Exp)"
proof -
  have inv: "inverse_fn Exp [[Fin 1]] False = Inr (Value [[Fin 0]])"
    by (simp add: Exp_def Transform_base_def on_matrix_def Exp_inverse_def clip_by_value_def)
  show ?thesis
    using inv deterministic_nodes_reject
            [of "[1, 1]" "[]" "Stochastic [1, 1] None None" "Stochastic [1, 1] None None" Exp
                "[[Fin 1]]" "[[Fin 0]]" "[1, 1]" None None]
    by blast
qed

section \<open>Chains of transforms\<close>

lemma chain_loop_acc:
  "chain_loop ms rlj x (acc @ acc') =
     ebind (chain_loop ms rlj x acc') (\<lambda>(y, ljs). Inr (y, acc @ ljs))"
proof (induction ms arbitrary: x acc')
  case Nil
  show ?case by (simp add: ebind_def)
next
  case (Cons m ms)
  show ?case
  proof (cases rlj)
    case True
    show ?thesis
    proof (cases "expect_pair (m x True)")
      case (Inl e)
      with True show ?thesis by (simp add: ebind_def)
    next
      case (Inr p)
      obtain y lj where p: "p = (y, lj)" by (cases p)
      from Cons.IH [of y "acc' @ [lj]"] True Inr p show ?thesis
        by (simp add: ebind_def)
    qed
  next
    case False
    show ?thesis
    proof (cases "expect_value (m x False)")
      case (Inl e)
      with False show ?thesis by (simp add: ebind_def)
    next
      case (Inr y)
      from Cons.IH [of y acc'] False Inr show ?thesis
        by (simp add: ebind_def)
    qed
  qed
qed

lemma chain_loop_value:
  "chain_result False (chain_loop (m # ms) False x []) =
     ebind (expect_value (m x False)) (\<lambda>y. chain_result False (chain_loop ms False y []))"
  by (simp add: ebind_def chain_result_def split: sum.splits)

lemma chain_loop_pair:
  "chain_result True (chain_loop (m # ms) True x []) =
     ebind (expect_pair (m x True)) (\<lambda>(y, lj).
       ebind (expect_pair (chain_result True (chain_loop ms True y []))) (\<lambda>(z, lj').
         Inr (WithLogJac z (fadd lj lj'))))"
proof (cases "expect_pair (m x True)")
  case (Inl e)
  then show ?thesis by (simp add: ebind_def chain_result_def)
next
  case (Inr p)
  obtain y lj where p: "p = (y, lj)" by (cases p)
  have "chain_loop ms True y [lj] =
          ebind (chain_loop ms True y []) (\<lambda>(z, ljs). Inr (z, [lj] @ ljs))"
    using chain_loop_acc [of ms True y "[lj]" "[]"] by simp
  with Inr p show ?thesis
    by (simp add: ebind_def chain_result_def expect_pair_def split: sum.splits prod.splits)
qed

lemma structural_loop_all: "structural_loop bs acc = (acc \<and> list_all (\<lambda>b. b) bs)"
  by (induction bs arbitrary: acc) auto

text \<open>
  Claim C3. The chain of \<open>T\<close> followed by \<open>Ts\<close> transforms by \<open>T\<close> and then by the chain
  of \<open>Ts\<close>; the chain of \<open>Ts\<close> followed by \<open>T\<close> inverts by the inverse of \<open>T\<close> and then by
  the inverse of the chain of \<open>Ts\<close>; with \<open>return_log_jac=True\<close> the log-Jacobian is the
  sum of the log-Jacobian of that first stage and the log-Jacobian of the rest; the empty
  chain is the identity with log-Jacobian 0; \<open>is_structural\<close> is the conjunction of the
  components' \<open>is_structural\<close>; \<open>output_shape\<close> composes the components' \<open>output_shape\<close> in
  the order of the chain and \<open>input_shape\<close> their \<open>input_shape\<close> in the reverse order.
  An exception of a stage is the exception of the chain.
\<close>

theorem chain_transforms_compose:
  "transform (chain_transforms (T # Ts)) x False
     = ebind (expect_value (transform T x False))
         (\<lambda>y. transform (chain_transforms Ts) y False) \<and>
   transform (chain_transforms (T # Ts)) x True
     = ebind (expect_pair (transform T x True)) (\<lambda>(y, lj).
         ebind (expect_pair (transform (chain_transforms Ts) y True)) (\<lambda>(z, lj').
           Inr (WithLogJac z (fadd lj lj')))) \<and>
   inverse_fn (chain_transforms (Ts @ [T])) x False
     = ebind (expect_value (inverse_fn T x False))
         (\<lambda>y. inverse_fn (chain_transforms Ts) y False) \<and>
   inverse_fn (chain_transforms (Ts @ [T])) x True
     = ebind (expect_pair (inverse_fn T x True)) (\<lambda>(y, lj).
         ebind (expect_pair (inverse_fn (chain_transforms Ts) y True)) (\<lambda>(z, lj').
           Inr (WithLogJac z (fadd lj lj')))) \<and>
   transform (chain_transforms []) x False = Inr (Value x) \<and>
   transform (chain_transforms []) x True = Inr (WithLogJac x (Fin 0)) \<and>
   inverse_fn (chain_transforms []) x False = Inr (Value x) \<and>
   inverse_fn (chain_transforms []) x True = Inr (WithLogJac x (Fin 0)) \<and>
   is_structural (chain_transforms Us) = list_all is_structural Us \<and>
   output_shape (chain_transforms (T # Ts)) s
     = ebind (output_shape T s) (output_shape (chain_transforms Ts)) \<and>
   input_shape (chain_transforms (Ts @ [T])) s
     = ebind (input_shape T s) (input_shape (chain_transforms Ts)) \<and>
   output_shape (chain_transforms []) s = Inr s \<and>
   input_shape (chain_transforms []) s = Inr s"
proof -
  have t0: "transform (chain_transforms (T # Ts)) x False
     = ebind (expect_value (transform T x False))
         (\<lambda>y. transform (chain_transforms Ts) y False)"
    using chain_loop_value [of "transform T" "map transform Ts" x]
    by (simp add: chain_transforms_def)
  have t1: "transform (chain_transforms (T # Ts)) x True
     = ebind (expect_pair (transform T x True)) (\<lambda>(y, lj).
         ebind (expect_pair (transform (chain_transforms Ts) y True)) (\<lambda>(z, lj').
           Inr (WithLogJac z (fadd lj lj'))))"
    using chain_loop_pair [of "transform T" "map transform Ts" x]
    by (simp add: chain_transforms_def)
  have i0: "inverse_fn (chain_transforms (Ts @ [T])) x False
     = ebind (expect_value (inverse_fn T x False))
         (\<lambda>y. inverse_fn (chain_transforms Ts) y False)"
    using chain_loop_value [of "inverse_fn T" "map inverse_fn (rev Ts)" x]
    by (simp add: chain_transforms_def)
  have i1: "inverse_fn (chain_transforms (Ts @ [T])) x True
     = ebind (expect_pair (inverse_fn T x True)) (\<lambda>(y, lj).
         ebind (expect_pair (inverse_fn (chain_transforms Ts) y True)) (\<lambda>(z, lj').
           Inr (WithLogJac z (fadd lj lj'))))"
    using chain_loop_pair [of "inverse_fn T" "map inverse_fn (rev Ts)" x]
    by (simp add: chain_transforms_def)
  have e: "transform (chain_transforms []) x False = Inr (Value x) \<and>
   transform (chain_transforms []) x True = Inr (WithLogJac x (Fin 0)) \<and>
   inverse_fn (chain_transforms []) x False = Inr (Value x) \<and>
   inverse_fn (chain_transforms []) x True = Inr (WithLogJac x (Fin 0)) \<and>
   output_shape (chain_transforms []) s = Inr s \<and>
   input_shape (chain_transforms []) s = Inr s"
    by (simp add: chain_transforms_def chain_result_def ebind_def)
  have st: "is_structural (chain_transforms Us) = list_all is_structural Us"
    by (simp add: chain_transforms_def structural_loop_all list_all_iff)
  have sh: "output_shape (chain_transforms (T # Ts)) s
     = ebind (output_shape T s) (output_shape (chain_transforms Ts)) \<and>
   input_shape (chain_transforms (Ts @ [T])) s
     = ebind (input_shape T s) (input_shape (chain_transforms Ts))"
    by (simp add: chain_transforms_def ebind_def split: sum.splits) 
  from t0 t1 i0 i1 e st sh show ?thesis by blast
qed

section \<open>Shift invariance of Simplex\<close>








section \<open>Bounds on the exponential\<close>






section \<open>Elementwise stages on finite tensors\<close>

















section \<open>Results of the clipping transforms on finite tensors\<close>













text \<open>
  Without the clipping the logarithm of \<open>Exp.inverse\<close> is not finite at 0.
\<close>

lemma Exp_inverse_unclipped: "Exp_inverse [Fin 0] False False = Value [NInf]"
  by (simp add: Exp_inverse_def)


section \<open>Log-Jacobians of a transform and of its inverse\<close>












section \<open>Expected log-density of a Gaussian node\<close>


















end
